theory Spec2Isabelle
  imports Complex_Main "HOL-Library.Char_ord" "HOL-Library.List_Lexorder"
    "HOL-Library.Product_Lexorder" "HOL-Library.Multiset"
begin

section \<open>Python strings\<close>

text \<open>
  A Python \<open>str\<close> is modelled as a \<open>string\<close> whose characters are the code points
  0..255. On that range \<open>str.isspace\<close> (and the regular expression class \<open>\s\<close>) holds for
  9..13, 28..32, 133 and 160, and the only decimal digits (\<open>\d\<close>) are \<open>0\<close>..\<open>9\<close>.
  Case mapping is modelled on the ASCII letters only.
\<close>

definition py_isspace :: "char \<Rightarrow> bool" where
  "py_isspace c = (let n = (of_char c :: nat) in
     (9 \<le> n \<and> n \<le> 13) \<or> (28 \<le> n \<and> n \<le> 32) \<or> n = 133 \<or> n = 160)"

definition py_isdigit :: "char \<Rightarrow> bool" where
  "py_isdigit c = (let n = (of_char c :: nat) in 48 \<le> n \<and> n \<le> 57)"

text \<open>\<open>s.strip()\<close>: whitespace removed at both ends.\<close>

definition strip :: "string \<Rightarrow> string" where
  "strip s = rev (dropWhile py_isspace (rev (dropWhile py_isspace s)))"

text \<open>\<open>s.replace(a, b)\<close> for one-character \<open>a\<close> and \<open>b\<close>.\<close>

definition replace_char :: "char \<Rightarrow> char \<Rightarrow> string \<Rightarrow> string" where
  "replace_char a b s = map (\<lambda>c. if c = a then b else c) s"

definition upper_char :: "char \<Rightarrow> char" where
  "upper_char c = (let n = (of_char c :: nat) in
     if 97 \<le> n \<and> n \<le> 122 then char_of (n - 32) else c)"

definition lower_char :: "char \<Rightarrow> char" where
  "lower_char c = (let n = (of_char c :: nat) in
     if 65 \<le> n \<and> n \<le> 90 then char_of (n + 32) else c)"

definition upper :: "string \<Rightarrow> string" where
  "upper s = map upper_char s"

definition lower :: "string \<Rightarrow> string" where
  "lower s = map lower_char s"

text \<open>
  \<open>s.zfill(width)\<close>: zeros are put on the left up to \<open>width\<close>, after a leading sign
  if there is one; a string that is long enough is returned as it is.
\<close>

definition zfill :: "nat \<Rightarrow> string \<Rightarrow> string" where
  "zfill width s =
     (if width \<le> length s then s
      else (case s of
              c # cs \<Rightarrow>
                (if c = CHR ''+'' \<or> c = CHR ''-''
                 then c # replicate (width - length s) (CHR ''0'') @ cs
                 else replicate (width - length s) (CHR ''0'') @ s)
            | [] \<Rightarrow> replicate width (CHR ''0'')))"

text \<open>The value of a decimal digit, and of a run of digits (\<open>int(s)\<close> on digits only).\<close>

definition digit_val :: "char \<Rightarrow> nat" where
  "digit_val c = of_char c - 48"

definition nat_of_digits :: "string \<Rightarrow> nat" where
  "nat_of_digits s = foldl (\<lambda>a c. 10 * a + digit_val c) 0 s"

text \<open>The decimal numeral of a natural number, and \<open>f"{n:0wd}"\<close> for \<open>n \<ge> 0\<close>.\<close>

definition digit_char :: "nat \<Rightarrow> char" where
  "digit_char d = ''0123456789'' ! (d mod 10)"

fun decimal :: "nat \<Rightarrow> string" where
  "decimal n = (if n < 10 then [digit_char n] else decimal (n div 10) @ [digit_char n])"

declare decimal.simps [simp del]

definition format_0d :: "nat \<Rightarrow> nat \<Rightarrow> string" where
  "format_0d width n =
     (let d = decimal n in replicate (width - length d) (CHR ''0'') @ d)"


section \<open>utils/io.py: separator detection\<close>

definition sniff_sep :: "string \<Rightarrow> string" where
  "sniff_sep sample =
     (if CHR '';'' \<in> set sample
         \<and> count_list sample (CHR '';'') \<ge> count_list sample (CHR '','')
      then '';'' else '','')"

text \<open>
  \<open>read_csv_flexible\<close> reads the first 4096 bytes, decodes them as UTF-8 ignoring
  errors and passes them to \<open>sniff_sep\<close>. The bytes \<open>;\<close> and \<open>,\<close> are ASCII: the
  decoder keeps each of them and produces no new one, so the sample is taken here to be the
  bytes themselves. The function below is the separator that is handed to the CSV reader.
\<close>

definition read_csv_flexible_sep :: "string \<Rightarrow> string" where
  "read_csv_flexible_sep path_or_buf = (let head = take 4096 path_or_buf in sniff_sep head)"


section \<open>Floating-point values and \<open>float(s)\<close>\<close>

text \<open>
  A Python float is modelled by its exact value: a rational number, an infinity or
  not-a-number. Rounding to binary64 and overflow are not modelled.
\<close>

datatype fval = Fin rat | PInf | NInf | NaN

datatype py_error = ValueError | KeyError | TypeError

text \<open>\<open>digitpart ::= digit (["_"] digit)*\<close> of the Python grammar of \<open>float\<close>.\<close>

fun digitpart :: "string \<Rightarrow> bool" where
  "digitpart [] = False"
| "digitpart [c] = py_isdigit c"
| "digitpart (c # d # cs) =
     (py_isdigit c \<and> (if d = CHR ''_'' then digitpart cs else digitpart (d # cs)))"

definition digits_value :: "string \<Rightarrow> nat" where
  "digits_value s = nat_of_digits (filter py_isdigit s)"

definition split_at :: "(char \<Rightarrow> bool) \<Rightarrow> string \<Rightarrow> string \<times> string option" where
  "split_at p s =
     (case dropWhile (\<lambda>c. \<not> p c) s of
        [] \<Rightarrow> (s, None)
      | _ # rest \<Rightarrow> (takeWhile (\<lambda>c. \<not> p c) s, Some rest))"

definition split_sign :: "string \<Rightarrow> bool \<times> string" where
  "split_sign s =
     (case s of
        c # cs \<Rightarrow> (if c = CHR ''-'' then (True, cs)
                   else if c = CHR ''+'' then (False, cs) else (False, s))
      | [] \<Rightarrow> (False, []))"

text \<open>\<open>number ::= [digitpart] "." digitpart | digitpart ["."]\<close>, with its value.\<close>

definition parse_number :: "string \<Rightarrow> rat option" where
  "parse_number s =
     (case split_at (\<lambda>c. c = CHR ''.'') s of
        (ip, None) \<Rightarrow> (if digitpart ip then Some (of_nat (digits_value ip)) else None)
      | (ip, Some fp) \<Rightarrow>
          (if (ip = [] \<or> digitpart ip) \<and> (if fp = [] then digitpart ip else digitpart fp)
           then Some (of_nat (digits_value ip)
                      + of_nat (digits_value fp) / 10 ^ length (filter py_isdigit fp))
           else None))"

text \<open>\<open>exponent ::= ("e" | "E") [sign] digitpart\<close>: the power of ten it denotes.\<close>

definition parse_exponent :: "string \<Rightarrow> rat option" where
  "parse_exponent s =
     (case split_sign s of
        (neg, ds) \<Rightarrow>
          (if digitpart ds
           then Some (if neg then 1 / 10 ^ digits_value ds else 10 ^ digits_value ds)
           else None))"

definition parse_floatnumber :: "string \<Rightarrow> rat option" where
  "parse_floatnumber s =
     (case split_at (\<lambda>c. c = CHR ''e'' \<or> c = CHR ''E'') s of
        (m, None) \<Rightarrow> parse_number m
      | (m, Some e) \<Rightarrow>
          (case (parse_number m, parse_exponent e) of
             (Some q, Some p) \<Rightarrow> Some (q * p)
           | _ \<Rightarrow> None))"

text \<open>
  \<open>float(s)\<close> on a string: surrounding whitespace is ignored, then
  \<open>floatvalue ::= [sign] (floatnumber | infinity | nan)\<close>; anything else raises
  \<open>ValueError\<close>.
\<close>

definition py_float :: "string \<Rightarrow> py_error + fval" where
  "py_float s =
     (case split_sign (strip s) of
        (neg, body) \<Rightarrow>
          (if lower body = ''inf'' \<or> lower body = ''infinity''
           then Inr (if neg then NInf else PInf)
           else if lower body = ''nan'' then Inr NaN
           else (case parse_floatnumber body of
                   Some q \<Rightarrow> Inr (Fin (if neg then - q else q))
                 | None \<Rightarrow> Inl ValueError)))"


section \<open>utils/prep.py: cell values and \<open>_to_float\<close>\<close>

text \<open>
  A cell of a column that has not been given a numeric type yet: missing, a text or a
  finite number. (\<open>pd.isna\<close> is true of the missing cell only.)
\<close>

datatype cell = Null | Str string | Num rat

text \<open>What \<open>_to_float\<close> returns: \<open>pd.NA\<close> or a float.\<close>

datatype pyval = NA | Fl fval

text \<open>
  \<open>_to_float\<close>. For a cell that is a number already, \<open>float(str(x))\<close> is that number.
  The bare \<open>except\<close> catches whatever \<open>float\<close> raises.
\<close>

definition to_float :: "cell \<Rightarrow> py_error + pyval" where
  "to_float x =
     (case x of
        Null \<Rightarrow> Inr NA
      | Num q \<Rightarrow> Inr (Fl (Fin q))
      | Str t \<Rightarrow>
          (let s = replace_char (CHR '','') (CHR ''.'') (strip t) in
           case py_float s of
             Inr v \<Rightarrow> Inr (Fl v)
           | Inl e \<Rightarrow> Inr NA))"

text \<open>\<open>df[col].map(_to_float)\<close> in \<open>clean_raw\<close>: the function is applied to every cell.\<close>

definition map_to_float :: "cell list \<Rightarrow> py_error + pyval list" where
  "map_to_float col =
     foldr (\<lambda>x acc. case (to_float x, acc) of
                      (Inr v, Inr vs) \<Rightarrow> Inr (v # vs)
                    | (Inl e, _) \<Rightarrow> Inl e
                    | (_, Inl e) \<Rightarrow> Inl e) col (Inr [])"


section \<open>Department codes\<close>

text \<open>
  \<open>clean_raw\<close> and \<open>coerce_cleaned\<close> both normalise a department code with
  \<open>.astype("string").str.strip().str.zfill(3)\<close>; a missing code stays missing.
\<close>

definition dept_normalize :: "string \<Rightarrow> string" where
  "dept_normalize s = zfill 3 (strip s)"

text \<open>
  \<open>norm\<close>, the inner function of \<open>_zfill_dept\<close> in sections/map\_section.py, which
  prepares the codes for the join with the department geometries.
\<close>

definition zfill_dept_norm :: "string \<Rightarrow> string" where
  "zfill_dept_norm x =
     (let s = upper (strip x) in
      if s = ''2A'' \<or> s = ''2B'' then s
      else (let s_digits = filter py_isdigit s in
            if s_digits = [] then s
            else (let n = nat_of_digits s_digits in
                  if 970 \<le> n \<and> n \<le> 989 then format_0d 3 n else format_0d 2 n)))"


section \<open>Tables\<close>

text \<open>
  A row of the table handed to the population union and to the table builder. The year
  is a nullable integer and the identifier columns are nullable texts, as both coercion
  functions leave them; on such columns \<open>_ensure_year\<close> (\<open>pd.to_numeric\<close> followed by
  \<open>astype("Int64")\<close>) changes nothing. The measure columns hold cells of any kind, since
  the functions below coerce them again. A table lists the names of its columns (in
  order) and its rows; the field of a row for a column that the table does not have is
  never read. Columns other than the eight below are not read by any function here.
\<close>

record row =
  annee :: "int option"
  region :: "string option"
  dept :: "string option"
  sexe :: "int option"
  cla_age_5 :: "string option"
  ntop :: cell
  npop :: cell
  prev :: cell

record df =
  columns :: "string list"
  rows :: "row list"

text \<open>
  \<open>pd.to_numeric(_, errors="coerce")\<close> on one cell. How pandas reads a number out of a
  text is the library's business: the parser is the parameter \<open>P\<close>.
\<close>

definition to_numeric :: "(string \<Rightarrow> rat option) \<Rightarrow> cell \<Rightarrow> cell" where
  "to_numeric P c =
     (case c of
        Null \<Rightarrow> Null
      | Num q \<Rightarrow> Num q
      | Str s \<Rightarrow> (case P s of Some q \<Rightarrow> Num q | None \<Rightarrow> Null))"

definition ensure_year :: "int option \<Rightarrow> int option" where
  "ensure_year y = y"

text \<open>\<open>astype(str)\<close> on an identifier cell: a missing value becomes the text \<open>nan\<close>.\<close>

definition astype_str :: "string option \<Rightarrow> string" where
  "astype_str x = (case x of Some s \<Rightarrow> s | None \<Rightarrow> ''nan'')"


section \<open>utils/prep.py: the raw variant's row filters\<close>






text \<open>Lines 101-103 of \<open>clean_raw\<close>: rows missing in every key column are dropped.\<close>

definition key_is_null :: "string \<Rightarrow> row \<Rightarrow> bool" where
  "key_is_null c r =
     (if c = ''annee'' then annee r = None
      else if c = ''region'' then region r = None
      else if c = ''dept'' then dept r = None
      else prev r = Null)"

definition clean_raw_dropna_keys :: "df \<Rightarrow> df" where
  "clean_raw_dropna_keys d =
     (let key_cols = filter (\<lambda>c. c \<in> set (columns d)) [''annee'', ''region'', ''dept'', ''prev'']
      in if key_cols \<noteq> []
         then d\<lparr>rows := filter (\<lambda>r. \<not> list_all (\<lambda>c. key_is_null c r) key_cols) (rows d)\<rparr>
         else d)"


section \<open>utils/prep.py: the age-class pattern\<close>

text \<open>Regular expressions over character classes, matched by derivatives.\<close>

datatype rx = Emp | Eps | Cls "char \<Rightarrow> bool" | Seq rx rx | Alt rx rx | Star rx

fun nullable :: "rx \<Rightarrow> bool" where
  "nullable Emp = False"
| "nullable Eps = True"
| "nullable (Cls p) = False"
| "nullable (Seq r s) = (nullable r \<and> nullable s)"
| "nullable (Alt r s) = (nullable r \<or> nullable s)"
| "nullable (Star r) = True"

fun deriv :: "char \<Rightarrow> rx \<Rightarrow> rx" where
  "deriv c Emp = Emp"
| "deriv c Eps = Emp"
| "deriv c (Cls p) = (if p c then Eps else Emp)"
| "deriv c (Seq r s) =
     (if nullable r then Alt (Seq (deriv c r) s) (deriv c s) else Seq (deriv c r) s)"
| "deriv c (Alt r s) = Alt (deriv c r) (deriv c s)"
| "deriv c (Star r) = Seq (deriv c r) (Star r)"

definition fullmatch :: "rx \<Rightarrow> string \<Rightarrow> bool" where
  "fullmatch r s = nullable (foldl (\<lambda>r c. deriv c r) r s)"

text \<open>
  A pattern of the form \<open>^...$\<close> given to \<open>search\<close>: \<open>$\<close> also matches just before a
  newline that ends the text.
\<close>

definition search_anchored :: "rx \<Rightarrow> string \<Rightarrow> bool" where
  "search_anchored r s =
     (fullmatch r s \<or> (s \<noteq> [] \<and> last s = CHR 0x0A \<and> fullmatch r (butlast s)))"

definition ws :: rx where
  "ws = Star (Cls py_isspace)"

definition digit :: rx where
  "digit = Cls py_isdigit"

text \<open>A literal character under \<open>re.IGNORECASE\<close>.\<close>

definition lit :: "char \<Rightarrow> rx" where
  "lit a = Cls (\<lambda>c. lower_char c = lower_char a)"

definition seqs :: "rx list \<Rightarrow> rx" where
  "seqs rs = foldr Seq rs Eps"

text \<open>
  \<open>^\s*\d{1,2}\s*-\s*\d{1,2}\s*$|^\s*\d{1,2}\s*\+\s*$|^\s*\d{2}\s*et\s*plus\s*$\<close>
\<close>

definition AGE_5Y_PATTERN :: rx where
  "AGE_5Y_PATTERN =
     Alt (seqs [ws, digit, Alt digit Eps, ws, lit (CHR ''-''), ws, digit, Alt digit Eps, ws])
    (Alt (seqs [ws, digit, Alt digit Eps, ws, lit (CHR ''+''), ws])
         (seqs [ws, digit, digit, ws, lit (CHR ''e''), lit (CHR ''t''), ws,
                lit (CHR ''p''), lit (CHR ''l''), lit (CHR ''u''), lit (CHR ''s''), ws]))"

definition age_5y_search :: "string \<Rightarrow> bool" where
  "age_5y_search s = search_anchored AGE_5Y_PATTERN s"


section \<open>utils/prep.py: population union\<close>

text \<open>
  \<open>_filter_population_scope\<close>. It works on a copy. The department becomes a text of
  width three at least and the aggregate \<open>999\<close> is removed; with an age-class column, only
  the rows whose label is a five-year class stay.
\<close>

definition filter_population_scope :: "df \<Rightarrow> df" where
  "filter_population_scope d =
     (let out = d;
          out = (if ''annee'' \<in> set (columns out)
                 then out\<lparr>rows := map (\<lambda>r. r\<lparr>annee := ensure_year (annee r)\<rparr>) (rows out)\<rparr>
                 else out);
          out = (if ''dept'' \<in> set (columns out)
                 then (let out = out\<lparr>rows := map (\<lambda>r. r\<lparr>dept := Some (zfill 3 (astype_str (dept r)))\<rparr>)
                                                  (rows out)\<rparr>
                       in out\<lparr>rows := filter (\<lambda>r. dept r \<noteq> Some ''999'') (rows out)\<rparr>)
                 else out);
          out = (if ''cla_age_5'' \<in> set (columns out)
                 then (let out = out\<lparr>rows := filter (\<lambda>r. length (strip (astype_str (cla_age_5 r))) > 0)
                                                     (rows out)\<rparr>
                       in out\<lparr>rows := filter (\<lambda>r. age_5y_search (astype_str (cla_age_5 r)))
                                              (rows out)\<rparr>)
                 else out)
      in out)"

text \<open>
  The reducers. Each is applied to the values of one group, in row order; a group is
  never empty.
\<close>

datatype reducer = Median | Min | Max | First

definition median :: "rat list \<Rightarrow> rat" where
  "median xs =
     (let s = sort xs; n = length s in
      if odd n then s ! (n div 2) else (s ! (n div 2 - 1) + s ! (n div 2)) / 2)"

definition agg :: "reducer \<Rightarrow> rat list \<Rightarrow> rat" where
  "agg m xs =
     (case m of
        Median \<Rightarrow> median xs
      | Min \<Rightarrow> hd (sort xs)
      | Max \<Rightarrow> last (sort xs)
      | First \<Rightarrow> hd xs)"

text \<open>
  \<open>groupby(keys)[col].agg(f)\<close>: one entry for each key that occurs, in the order of the
  keys, made from the rows that have the key, in row order. (With a categorical key and
  \<open>observed=False\<close> pandas lists the categories that do not occur too, with a missing
  value, which the sums below skip.)
\<close>

definition groupby_agg :: "('r \<Rightarrow> 'k::linorder) \<Rightarrow> ('r list \<Rightarrow> 'a) \<Rightarrow> 'r list \<Rightarrow> ('k \<times> 'a) list" where
  "groupby_agg key f rs =
     map (\<lambda>k. (k, f (filter (\<lambda>r. key r = k) rs))) (sort (remdups (map key rs)))"

text \<open>
  The key and the population of a row for the grouping by slice. \<open>groupby\<close> leaves a row
  with a missing key out; after the scope filter and \<open>dropna\<close> no row is left out.
\<close>

definition slice_obs :: "bool \<Rightarrow> row \<Rightarrow> (string list \<times> rat) option" where
  "slice_obs has_age r =
     (case (dept r, npop r) of
        (Some d, Num v) \<Rightarrow>
          (if has_age
           then (case cla_age_5 r of Some a \<Rightarrow> Some ([d, a], v) | None \<Rightarrow> None)
           else Some ([d], v))
      | _ \<Rightarrow> None)"

definition dedup_npop_per_slice :: "df \<Rightarrow> reducer \<Rightarrow> (string list \<times> rat) list" where
  "dedup_npop_per_slice tmp m =
     groupby_agg fst (\<lambda>g. agg m (map snd g))
       (List.map_filter (slice_obs (''cla_age_5'' \<in> set (columns tmp))) (rows tmp))"

definition required :: "string list" where
  "required = [''annee'', ''dept'', ''npop'']"

definition population_union_for_year ::
  "(string \<Rightarrow> rat option) \<Rightarrow> df \<Rightarrow> int \<Rightarrow> reducer \<Rightarrow> fval" where
  "population_union_for_year P d year m =
     (if \<not> set required \<subseteq> set (columns d) then NaN
      else (let tmp = filter_population_scope d;
                tmp = tmp\<lparr>rows := filter (\<lambda>r. annee r = Some year) (rows tmp)\<rparr>
            in if rows tmp = [] then NaN
               else (let tmp = tmp\<lparr>rows := map (\<lambda>r. r\<lparr>npop := to_numeric P (npop r)\<rparr>) (rows tmp)\<rparr>;
                         tmp = tmp\<lparr>rows := filter (\<lambda>r. npop r \<noteq> Null) (rows tmp)\<rparr>;
                         dedup = dedup_npop_per_slice tmp m
                     in Fin (sum_list (map snd dedup)))))"

text \<open>The same observation with its year, for the grouping by year and slice.\<close>

definition year_slice_obs :: "bool \<Rightarrow> row \<Rightarrow> ((int \<times> string list) \<times> rat) option" where
  "year_slice_obs has_age r =
     (case (annee r, slice_obs has_age r) of
        (Some y, Some (k, v)) \<Rightarrow> Some ((y, k), v)
      | _ \<Rightarrow> None)"

text \<open>
  \<open>population_union_by_year\<close>. The result is a frame with the columns \<open>annee\<close> and
  \<open>npop_union\<close>, given by its rows; the empty frame has none.
\<close>

definition population_union_by_year ::
  "(string \<Rightarrow> rat option) \<Rightarrow> df \<Rightarrow> reducer \<Rightarrow> (int \<times> rat) list" where
  "population_union_by_year P d m =
     (if \<not> set required \<subseteq> set (columns d) then []
      else (let tmp = filter_population_scope d;
                tmp = tmp\<lparr>rows := map (\<lambda>r. r\<lparr>npop := to_numeric P (npop r)\<rparr>) (rows tmp)\<rparr>;
                tmp = tmp\<lparr>rows := filter (\<lambda>r. annee r \<noteq> None \<and> npop r \<noteq> Null) (rows tmp)\<rparr>
            in if rows tmp = [] then []
               else (let dedup = groupby_agg fst (\<lambda>g. agg m (map snd g))
                                   (List.map_filter
                                      (year_slice_obs (''cla_age_5'' \<in> set (columns tmp))) (rows tmp));
                         out = groupby_agg (\<lambda>e. fst (fst e)) (\<lambda>g. sum_list (map snd g)) dedup
                     in sort_key fst out)))"


section \<open>utils/prep.py: the table builder\<close>

text \<open>Float division, as it is done on the column of sums.\<close>

definition fdiv :: "rat \<Rightarrow> rat \<Rightarrow> fval" where
  "fdiv a b =
     (if b \<noteq> 0 then Fin (a / b)
      else if a > 0 then PInf else if a < 0 then NInf else NaN)"

definition mean :: "rat list \<Rightarrow> rat" where
  "mean xs = sum_list xs / of_nat (length xs)"

text \<open>The order of \<open>sort_values(ascending=False)\<close> on floats: missing values last.\<close>

definition desc_key :: "fval \<Rightarrow> nat \<times> rat" where
  "desc_key v = (case v of PInf \<Rightarrow> (0, 0) | Fin q \<Rightarrow> (1, - q) | NInf \<Rightarrow> (2, 0) | NaN \<Rightarrow> (3, 0))"

text \<open>The data-quality summary, a dictionary with fixed keys.\<close>

record dq_summary =
  dq_rows :: nat
  dq_cols :: nat
  regions :: nat
  departments :: nat
  population_union_npop :: fval
  population_union_npop_2023 :: fval
  annees :: "int list"
  has_weight :: bool
  has_sex :: bool
  cols_list :: "string list"

text \<open>
  The values of the result dictionary. \<open>describe\<close> is the library's summary of a group
  of numbers; it is the parameter \<open>D\<close> of the builder.
\<close>

datatype 'd tval =
    Fine df
  | Timeseries "(int \<times> rat) list"
  | By_region "(string \<times> rat) list"
  | By_region_weighted "(string \<times> fval \<times> rat) list"
  | By_sexe_desc "(int \<times> 'd) list"
  | Dq dq_summary

definition prev_by :: "(row \<Rightarrow> 'k option) \<Rightarrow> row \<Rightarrow> ('k \<times> rat) option" where
  "prev_by key r =
     (case (key r, prev r) of (Some k, Num p) \<Rightarrow> Some (k, p) | _ \<Rightarrow> None)"

definition weighted_obs :: "row \<Rightarrow> (string \<times> rat \<times> rat) option" where
  "weighted_obs r =
     (case (region r, prev r, npop r) of
        (Some g, Num p, Num w) \<Rightarrow> Some (g, p * w, w)
      | _ \<Rightarrow> None)"

text \<open>
  \<open>make_tables\<close>. The first loop assigns to columns of the table it was given: the
  table as the caller sees it afterwards is the first component of the result, the
  dictionary the second.
\<close>

definition coerce_measures :: "(string \<Rightarrow> rat option) \<Rightarrow> df \<Rightarrow> df" where
  "coerce_measures P d =
     (let d = (if ''ntop'' \<in> set (columns d)
               then d\<lparr>rows := map (\<lambda>r. r\<lparr>ntop := to_numeric P (ntop r)\<rparr>) (rows d)\<rparr> else d);
          d = (if ''npop'' \<in> set (columns d)
               then d\<lparr>rows := map (\<lambda>r. r\<lparr>npop := to_numeric P (npop r)\<rparr>) (rows d)\<rparr> else d);
          d = (if ''prev'' \<in> set (columns d)
               then d\<lparr>rows := map (\<lambda>r. r\<lparr>prev := to_numeric P (prev r)\<rparr>) (rows d)\<rparr> else d)
      in d)"

definition make_tables ::
  "(string \<Rightarrow> rat option) \<Rightarrow> (rat list \<Rightarrow> 'd) \<Rightarrow> df \<Rightarrow> df \<times> (string \<rightharpoonup> 'd tval)" where
  "make_tables P D d0 =
     (let out = Map.empty;
          d = coerce_measures P d0;
          fine_dims = filter (\<lambda>c. c \<in> set (columns d))
                        [''annee'', ''region'', ''dept'', ''sexe'', ''cla_age_5''];
          keep_cols = filter (\<lambda>c. c \<in> set (columns d)) [''ntop'', ''npop'', ''prev''];
          out = (if fine_dims \<noteq> [] \<and> keep_cols \<noteq> []
                 then out(''fine'' \<mapsto> Fine (d\<lparr>columns := fine_dims @ keep_cols\<rparr>))
                 else out);
          out = (if set [''annee'', ''prev''] \<subseteq> set (columns d)
                 then out(''timeseries'' \<mapsto> Timeseries
                        (sort_key fst
                           (groupby_agg fst (\<lambda>g. mean (map snd g))
                              (List.map_filter (prev_by annee) (rows d)))))
                 else out);
          out = (if set [''region'', ''prev''] \<subseteq> set (columns d)
                 then out(''by_region'' \<mapsto> By_region
                        (sort_key (\<lambda>e. - snd e)
                           (groupby_agg fst (\<lambda>g. mean (map snd g))
                              (List.map_filter (prev_by region) (rows d)))))
                 else out);
          out = (if set [''region'', ''prev'', ''npop''] \<subseteq> set (columns d)
                 then (let tmp = List.map_filter weighted_obs (rows d);
                           by_reg_w = groupby_agg fst
                                        (\<lambda>g. (sum_list (map (\<lambda>e. fst (snd e)) g),
                                              sum_list (map (\<lambda>e. snd (snd e)) g))) tmp;
                           by_reg_w = map (\<lambda>(g, prev_pond, w). (g, fdiv prev_pond w, w)) by_reg_w
                       in out(''by_region_weighted'' \<mapsto> By_region_weighted
                                (sort_key (\<lambda>e. desc_key (fst (snd e))) by_reg_w)))
                 else out);
          out = (if set [''sexe'', ''prev''] \<subseteq> set (columns d)
                 then out(''by_sexe_desc'' \<mapsto> By_sexe_desc
                        (groupby_agg fst (\<lambda>g. D (map snd g))
                           (List.map_filter (prev_by sexe) (rows d))))
                 else out);
          regions_n = (if ''region'' \<in> set (columns d)
                       then length (remdups (List.map_filter region (rows d))) else 0);
          depts_n = (if ''dept'' \<in> set (columns d)
                     then length (remdups (List.map_filter dept (rows d))) else 0);
          pop_union_2023 = population_union_for_year P d 2023 Median;
          out = out(''dq'' \<mapsto> Dq \<lparr>
                  dq_rows = length (rows d),
                  dq_cols = length (columns d),
                  regions = regions_n,
                  departments = depts_n,
                  population_union_npop = pop_union_2023,
                  population_union_npop_2023 = pop_union_2023,
                  annees = (if ''annee'' \<in> set (columns d)
                            then sort (remdups (List.map_filter annee (rows d))) else []),
                  has_weight = (''npop'' \<in> set (columns d)),
                  has_sex = (''sexe'' \<in> set (columns d)),
                  cols_list = columns d \<rparr>)
      in (d, out))"




section \<open>The per-region weighted mean as the specification words it\<close>




section \<open>The by-year union, row by row\<close>






section \<open>Sample tables\<close>

definition sample_row ::
  "int option \<Rightarrow> string option \<Rightarrow> string option \<Rightarrow> string option \<Rightarrow> cell \<Rightarrow> cell \<Rightarrow> row" where
  "sample_row y g d a n p =
     \<lparr>annee = y, region = g, dept = d, sexe = None, cla_age_5 = a, ntop = Null, npop = n, prev = p\<rparr>"



text \<open>One department and age class of one year, repeated over five pathology rows.\<close>

definition slice_sample :: df where
  "slice_sample =
     \<lparr>columns = [''annee'', ''dept'', ''cla_age_5'', ''patho_niv1'', ''npop''],
      rows = [sample_row (Some 2023) None (Some ''001'') (Some ''0-4'') (Num 1000) Null,
              sample_row (Some 2023) None (Some ''001'') (Some ''0-4'') (Num 1000) Null,
              sample_row (Some 2023) None (Some ''001'') (Some ''0-4'') (Num 1000) Null,
              sample_row (Some 2023) None (Some ''001'') (Some ''0-4'') (Num 999) Null,
              sample_row (Some 2023) None (Some ''001'') (Some ''0-4'') (Num 1000) Null]\<rparr>"

text \<open>A table without the department column.\<close>

definition no_dept_sample :: df where
  "no_dept_sample =
     \<lparr>columns = [''annee'', ''npop''],
      rows = [sample_row (Some 2023) None None None (Num 1000) Null]\<rparr>"

text \<open>A table whose rows are the aggregate department 999 or carry no five-year age class.\<close>

definition aggregate_sample :: df where
  "aggregate_sample =
     \<lparr>columns = [''annee'', ''dept'', ''cla_age_5'', ''npop''],
      rows = [sample_row (Some 2023) None (Some ''999'') (Some ''0-4'') (Num 1000) Null,
              sample_row (Some 2023) None (Some ''075'') (Some ''tous ages'') (Num 1000) Null]\<rparr>"

text \<open>A table of one department whose populations are missing or not numbers.\<close>

definition null_npop_sample :: df where
  "null_npop_sample =
     \<lparr>columns = [''annee'', ''dept'', ''npop''],
      rows = [sample_row (Some 2023) None (Some ''075'') None Null Null,
              sample_row (Some 2023) None (Some ''075'') None (Str ''n/a'') Null]\<rparr>"



section \<open>Separator detection\<close>

lemma in_set_count_list: "(c \<in> set s) = (1 \<le> count_list s c)"
  using count_list_0_iff [of s c] by (cases "count_list s c") auto

text \<open>
  C4. \<open>sniff_sep\<close> answers \<open>;\<close> exactly when the sample has a semicolon and at least as
  many semicolons as commas, and \<open>,\<close> otherwise; so it does on \<open>a;b;c\<close>, on \<open>a,b,c\<close> and
  on a tie. The sample that \<open>read_csv_flexible\<close> inspects is the first 4096 bytes.
\<close>

theorem sniff_sep_spec:
  "(sniff_sep s = '';'')
     = (1 \<le> count_list s (CHR '';'') \<and> count_list s (CHR '','') \<le> count_list s (CHR '';''))
   \<and> (sniff_sep s = '','')
     = (\<not> (1 \<le> count_list s (CHR '';'') \<and> count_list s (CHR '','') \<le> count_list s (CHR '';'')))
   \<and> sniff_sep ''a;b;c'' = '';''
   \<and> sniff_sep ''a,b,c'' = '',''
   \<and> sniff_sep ''a;b,c'' = '';''
   \<and> read_csv_flexible_sep buf = sniff_sep (take 4096 buf)"
  by (simp add: sniff_sep_def read_csv_flexible_sep_def Let_def in_set_count_list)


section \<open>Department codes\<close>

text \<open>
  C3. The normalisation of the coercion functions pads \<open>99\<close> to \<open>099\<close>, but it pads the
  Corsican codes too: \<open>2A\<close> becomes \<open>02A\<close> and \<open>2B\<close> becomes \<open>02B\<close>. The normalisation
  for the geographic join keeps \<open>2A\<close> when it is given \<open>2A\<close>; given the padded codes it
  returns \<open>02\<close> for both.
\<close>

theorem dept_normalize_corsica:
  "dept_normalize ''99'' = ''099''
   \<and> dept_normalize ''2A'' = ''02A''
   \<and> dept_normalize ''2B'' = ''02B''
   \<and> zfill_dept_norm ''2A'' = ''2A''
   \<and> zfill_dept_norm (dept_normalize ''2A'') = ''02''
   \<and> zfill_dept_norm (dept_normalize ''2B'') = ''02''
   \<and> zfill_dept_norm (dept_normalize ''99'') = ''99''"
  by code_simp


section \<open>Numeric repair\<close>

lemma to_float_total: "\<exists>v. to_float x = Inr v"
  by (cases x) (auto simp: to_float_def Let_def split: sum.splits)

lemma map_to_float_total: "\<exists>vs. map_to_float col = Inr vs \<and> length vs = length col"
proof (induction col)
  case Nil
  show ?case by (simp add: map_to_float_def)
next
  case (Cons x col)
  then obtain vs where vs: "map_to_float col = Inr vs" "length vs = length col" by blast
  from to_float_total obtain v where v: "to_float x = Inr v" by blast
  have "map_to_float (x # col) = Inr (v # vs)"
    using vs(1) v by (simp add: map_to_float_def)
  then show ?case using vs(2) by simp
qed

lemma to_float_examples:
  "to_float (Str ''12,5'') = Inr (Fl (Fin (25 / 2)))"
  "to_float (Str '' 12,5 '') = Inr (Fl (Fin (25 / 2)))"
  "to_float (Str ''abc'') = Inr NA"
  "to_float (Str []) = Inr NA"
  by code_simp+

text \<open>
  C6. \<open>_to_float\<close> trims the text and replaces the comma by a point before \<open>float\<close>
  reads it, and answers \<open>pd.NA\<close> when \<open>float\<close> raises: \<open>12,5\<close> gives 12.5, \<open>abc\<close> and
  the empty text give \<open>pd.NA\<close>. It returns a value on every cell, and so does its
  application to a whole column.
\<close>

theorem to_float_spec:
  "to_float (Str ''12,5'') = Inr (Fl (Fin (25 / 2)))
   \<and> to_float (Str '' 12,5 '') = Inr (Fl (Fin (25 / 2)))
   \<and> to_float (Str ''abc'') = Inr NA
   \<and> to_float (Str []) = Inr NA
   \<and> to_float Null = Inr NA
   \<and> to_float (Str t) =
       (case py_float (replace_char (CHR '','') (CHR ''.'') (strip t)) of
          Inr v \<Rightarrow> Inr (Fl v) | Inl e \<Rightarrow> Inr NA)
   \<and> (\<exists>v. to_float x = Inr v)
   \<and> (\<exists>vs. map_to_float col = Inr vs \<and> length vs = length col)"
proof -
  have "to_float Null = Inr NA" by (simp add: to_float_def)
  moreover have "to_float (Str t) =
       (case py_float (replace_char (CHR '','') (CHR ''.'') (strip t)) of
          Inr v \<Rightarrow> Inr (Fl v) | Inl e \<Rightarrow> Inr NA)"
    by (simp add: to_float_def Let_def)
  ultimately show ?thesis
    using to_float_examples to_float_total [of x] map_to_float_total [of col] by blast
qed


section \<open>The year range filter\<close>




section \<open>The table builder\<close>

lemma coerce_measures_columns [simp]: "columns (coerce_measures P d) = columns d"
  by (simp add: coerce_measures_def Let_def)

lemma coerce_measures_length [simp]: "length (rows (coerce_measures P d)) = length (rows d)"
  by (simp add: coerce_measures_def Let_def)




text \<open>
  C10. The result of the builder always has the entry \<open>dq\<close>; its flag \<open>has_weight\<close> says
  whether the table has the column \<open>npop\<close>, its flag \<open>has_sex\<close> whether it has the column
  \<open>sexe\<close>, and its row count, column count and column list are those of the table.
\<close>

theorem make_tables_dq:
  "\<exists>q. snd (make_tables P D d) ''dq'' = Some (Dq q)
       \<and> has_weight q = (''npop'' \<in> set (columns d))
       \<and> has_sex q = (''sexe'' \<in> set (columns d))
       \<and> dq_rows q = length (rows d)
       \<and> dq_cols q = length (columns d)
       \<and> cols_list q = columns d"
  by (simp add: make_tables_def Let_def)



text \<open>
  The hypothesis is needed: a text in a measure column is replaced in the caller's table.
\<close>

lemma make_tables_mutates_untyped:
  "fst (make_tables P D \<lparr>columns = [''npop''], rows = [sample_row None None None None (Str ''abc'') Null]\<rparr>)
     \<noteq> \<lparr>columns = [''npop''], rows = [sample_row None None None None (Str ''abc'') Null]\<rparr>"
  by (simp add: make_tables_def coerce_measures_def Let_def sample_row_def to_numeric_def
        split: option.splits)


section \<open>The per-region weighted mean\<close>










section \<open>The population union of a single slice\<close>



lemma scope_columns [simp]: "columns (filter_population_scope d) = columns d"
  by (simp add: filter_population_scope_def Let_def)









section \<open>The population union without data\<close>

text \<open>
  C8. When one of the columns \<open>annee\<close>, \<open>dept\<close>, \<open>npop\<close> is absent, the single-year union
  is NaN and the by-year union is the empty frame. When the scope filter followed by the
  restriction to the year leaves no row, the single-year union is NaN. When the scope filter
  leaves no row with a year and a numeric population (in particular when it leaves no row),
  the by-year union is the empty frame. Both functions are total on the tables of the model,
  whose year column is a nullable integer: they return in each of these cases.
\<close>

theorem population_union_not_available:
  "(\<not> set required \<subseteq> set (columns d) \<longrightarrow>
      population_union_for_year P d y m = NaN \<and> population_union_by_year P d m = [])
   \<and> (filter (\<lambda>r. annee r = Some y) (rows (filter_population_scope d)) = [] \<longrightarrow>
      population_union_for_year P d y m = NaN)
   \<and> (filter (\<lambda>r. annee r \<noteq> None \<and> to_numeric P (npop r) \<noteq> Null)
         (rows (filter_population_scope d)) = [] \<longrightarrow>
      population_union_by_year P d m = [])"
proof (intro conjI impI)
  assume "\<not> set required \<subseteq> set (columns d)"
  then show "population_union_for_year P d y m = NaN"
    by (simp add: population_union_for_year_def)
next
  assume "\<not> set required \<subseteq> set (columns d)"
  then show "population_union_by_year P d m = []"
    by (simp add: population_union_by_year_def)
next
  assume "filter (\<lambda>r. annee r = Some y) (rows (filter_population_scope d)) = []"
  then show "population_union_for_year P d y m = NaN"
    by (simp add: population_union_for_year_def Let_def)
next
  assume e: "filter (\<lambda>r. annee r \<noteq> None \<and> to_numeric P (npop r) \<noteq> Null)
         (rows (filter_population_scope d)) = []"
  have "filter (\<lambda>r. annee r \<noteq> None \<and> npop r \<noteq> Null)
          (map (\<lambda>r. r\<lparr>npop := to_numeric P (npop r)\<rparr>) (rows (filter_population_scope d)))
        = map (\<lambda>r. r\<lparr>npop := to_numeric P (npop r)\<rparr>)
            (filter (\<lambda>r. annee r \<noteq> None \<and> to_numeric P (npop r) \<noteq> Null)
               (rows (filter_population_scope d)))"
    by (simp add: filter_map comp_def)
  then show "population_union_by_year P d m = []"
    unfolding e by (simp add: population_union_by_year_def Let_def)
qed

lemma scope_aggregate: "rows (filter_population_scope aggregate_sample) = []"
  by code_simp

lemma scope_slice_sample: "rows (filter_population_scope slice_sample) = rows slice_sample"
  by code_simp

text \<open>
  A table without the department column; a table that the scope filter empties; the
  single-slice table of the year 2023 asked for the year 2022.
\<close>

theorem population_union_not_available_witness:
  "columns no_dept_sample = [''annee'', ''npop'']
   \<and> population_union_for_year (\<lambda>s. None) no_dept_sample 2023 Median = NaN
   \<and> population_union_by_year (\<lambda>s. None) no_dept_sample Median = []
   \<and> rows (filter_population_scope aggregate_sample) = []
   \<and> population_union_for_year (\<lambda>s. None) aggregate_sample 2023 Median = NaN
   \<and> population_union_by_year (\<lambda>s. None) aggregate_sample Median = []
   \<and> map annee (rows (filter_population_scope slice_sample)) = replicate 5 (Some 2023)
   \<and> population_union_for_year (\<lambda>s. None) slice_sample 2022 Median = NaN"
proof -
  have a: "\<not> set required \<subseteq> set (columns no_dept_sample)"
    by (simp add: required_def no_dept_sample_def)
  have b: "map annee (rows (filter_population_scope slice_sample)) = replicate 5 (Some 2023)"
    unfolding scope_slice_sample by (simp add: slice_sample_def sample_row_def numeral_eq_Suc)
  have c: "filter (\<lambda>r. annee r = Some 2022) (rows (filter_population_scope slice_sample)) = []"
    unfolding scope_slice_sample by (simp add: slice_sample_def sample_row_def)
  have "columns no_dept_sample = [''annee'', ''npop'']" by (simp add: no_dept_sample_def)
  then show ?thesis
    using population_union_not_available [where d = no_dept_sample and P = "\<lambda>s. None" and y = 2023 and m = Median]
      population_union_not_available [where d = aggregate_sample and P = "\<lambda>s. None" and y = 2023 and m = Median]
      population_union_not_available [where d = slice_sample and P = "\<lambda>s. None" and y = 2022 and m = Median]
      a b c
    by (simp add: scope_aggregate)
qed

text \<open>
  The single-year function tests for emptiness before it drops the rows without a numeric
  population, the by-year function after it: on rows of the year that all lack a numeric
  population the first returns the empty sum 0, the second the empty frame.
\<close>

lemma population_union_null_population:
  "population_union_for_year (\<lambda>s. None) null_npop_sample 2023 Median = Fin 0
   \<and> population_union_by_year (\<lambda>s. None) null_npop_sample Median = []"
  by code_simp

section \<open>The by-year population union under a new slice\<close>

subsection \<open>Grouping\<close>









subsection \<open>The by-year union, row by row\<close>














subsection \<open>Monotonicity\<close>







end
